theory Spec2Isabelle
  imports Main "HOL-Library.AList"
begin

section \<open>Data model\<close>

text \<open>
  A report model row, as the views of \<^verbatim>\<open>drealcorsereports/views/admin.py\<close> read and write
  it. The primary key is kept beside the row: the table \<open>dbsession\<close> is an association
  list from primary keys to rows, in query order. \<open>created_by\<close> and \<open>updated_by\<close> hold
  \<^verbatim>\<open>request.authenticated_userid\<close>, which is \<^verbatim>\<open>None\<close> for an unauthenticated request.
\<close>

type_synonym uuid = nat
type_synonym datetime = int

record ReportModel =
  name :: string
  layer_id :: string
  custom_field_schema :: string
  created_by :: "string option"
  created_at :: datetime
  updated_by :: "string option"
  updated_at :: datetime

type_synonym dbsession = "(uuid \<times> ReportModel) list"

text \<open>
  The JSON body of a create or an update: the tests send the three fields of a report
  model, and for an update also its \<^verbatim>\<open>id\<close>.
\<close>

record json_body =
  body_id :: "string option"
  body_name :: string
  body_layer_id :: string
  body_custom_field_schema :: string

text \<open>
  An instance of the row class in the SQLAlchemy session: either the session's object for
  the row of a primary key (\<open>Persistent\<close>), whose changed attributes the session writes
  back to that row, or a new object that is not in the table (\<open>Pending\<close>), with or
  without a primary key of its own.
\<close>

datatype binding = Persistent uuid | Pending "uuid option"

type_synonym orm_instance = "binding \<times> ReportModel"

record request =
  matchdict_id :: "string option"
  authenticated_userid :: "string option"
  effective_principals :: "string list"
  json_body :: json_body
  validated :: orm_instance

text \<open>
  What the views call and this repository does not define in \<^verbatim>\<open>admin.py\<close>:
  \<open>UUID\<close> is Python's \<^verbatim>\<open>uuid.UUID\<close> constructor (\<open>None\<close> where it raises
  \<^verbatim>\<open>ValueError\<close>), \<open>is_user_admin_on_layer\<close> is the remote layer-administrator check of
  \<^verbatim>\<open>drealcorsereports.security\<close>, \<open>now\<close> is \<^verbatim>\<open>datetime.now(timezone.utc)\<close>,
  \<open>uuid4\<close> is the primary key a new row receives when the session is flushed,
  \<open>tjs_view_name\<close> is the method of that name of the row class, and
  \<open>session_instance\<close> is the instance that the schema obtains from its session for a
  body, before the submitted fields are set on it: which row it is bound to and what its
  attributes hold is decided by \<^verbatim>\<open>drealcorsereports.schemas.reports\<close>.
\<close>

record env =
  UUID :: "string \<Rightarrow> uuid option"
  is_user_admin_on_layer :: "request \<Rightarrow> string \<Rightarrow> bool"
  now :: datetime
  uuid4 :: uuid
  tjs_view_name :: "ReportModel \<Rightarrow> string"
  session_instance :: "json_body \<Rightarrow> dbsession \<Rightarrow> orm_instance"

type_synonym field_error = "string \<times> string \<times> string list"

datatype exn =
  ValueError
  | HTTPNotFound
  | HTTPForbidden
  | HTTPBadRequest "field_error list"
  | HTTPMethodNotAllowed
  | HTTPError int
  | IntegrityError

datatype body =
  Dump "uuid option" ReportModel
  | DumpList "(uuid \<times> ReportModel) list"
  | TjsView string
  | NoBody

type_synonym response = "nat \<times> body"

section \<open>The resource class \<^verbatim>\<open>AdminReportModelView\<close>\<close>

record AdminReportModelView =
  request :: request
  report_models_id :: "uuid option"

text \<open>\<^verbatim>\<open>__init__\<close>: an absent or empty \<^verbatim>\<open>id\<close> is falsy and gives \<^verbatim>\<open>None\<close>.\<close>

definition dunder_init :: "env \<Rightarrow> request \<Rightarrow> exn + AdminReportModelView" where
  "dunder_init e req =
     (case matchdict_id req of
        None \<Rightarrow> Inr \<lparr>request = req, report_models_id = None\<rparr>
      | Some s \<Rightarrow>
          if s \<noteq> []
          then (case UUID e s of
                  None \<Rightarrow> Inl ValueError
                | Some u \<Rightarrow> Inr \<lparr>request = req, report_models_id = Some u\<rparr>)
          else Inr \<lparr>request = req, report_models_id = None\<rparr>)"

text \<open>\<^verbatim>\<open>get_object\<close>: \<^verbatim>\<open>query.get\<close> looks the primary key up; \<^verbatim>\<open>get(None)\<close> finds nothing.\<close>

definition get_object :: "AdminReportModelView \<Rightarrow> dbsession \<Rightarrow> exn + uuid \<times> ReportModel" where
  "get_object self st =
     (case report_models_id self of
        None \<Rightarrow> Inl HTTPNotFound
      | Some u \<Rightarrow> (case map_of st u of
                    None \<Rightarrow> Inl HTTPNotFound
                  | Some rm \<Rightarrow> Inr (u, rm)))"

datatype action = Allow | Deny

type_synonym ace = "action \<times> string option \<times> string list"

definition static_acl :: "ace list" where
  "static_acl =
     [(Allow, Some ''ROLE_REPORTS_ADMIN'', [''list'', ''add'', ''view'']),
      (Allow, Some ''ROLE_SUPERUSER'', [''list'', ''add'', ''view'', ''edit'', ''delete''])]"

definition dynamic_ace :: "request \<Rightarrow> ace" where
  "dynamic_ace req = (Allow, authenticated_userid req, [''edit'', ''delete''])"

text \<open>\<^verbatim>\<open>__acl__\<close>: the static grants, extended by the grant to the caller.\<close>

definition dunder_acl :: "env \<Rightarrow> AdminReportModelView \<Rightarrow> dbsession \<Rightarrow> exn + ace list" where
  "dunder_acl e self st =
     (if report_models_id self \<noteq> None
         \<and> ''ROLE_REPORTS_ADMIN'' \<in> set (effective_principals (request self))
      then (case get_object self st of
              Inl x \<Rightarrow> Inl x
            | Inr (u, rm) \<Rightarrow>
                if is_user_admin_on_layer e (request self) (layer_id rm)
                then Inr (static_acl @ [dynamic_ace (request self)])
                else Inr static_acl)
      else Inr static_acl)"

definition collection_get :: "AdminReportModelView \<Rightarrow> dbsession \<Rightarrow> exn + response \<times> dbsession" where
  "collection_get self st = Inr ((200, DumpList st), st)"

text \<open>
  The session. \<^verbatim>\<open>dbsession.add\<close> followed by \<^verbatim>\<open>flush\<close> inserts a new object, under its
  own primary key or under a generated one, and the table refuses a key it already holds;
  for the session's object of a row \<^verbatim>\<open>add\<close> does nothing and the flush writes the
  attributes back to the row. Without \<^verbatim>\<open>add\<close>, the flush at the end of the request
  writes back the session's objects only; a new object is dropped.
\<close>

fun binding_id :: "binding \<Rightarrow> uuid option" where
  "binding_id (Persistent k) = Some k"
| "binding_id (Pending k) = k"

fun add_and_flush :: "env \<Rightarrow> binding \<Rightarrow> ReportModel \<Rightarrow> dbsession \<Rightarrow> exn + uuid \<times> dbsession" where
  "add_and_flush e (Persistent k) rm st = Inr (k, AList.update k rm st)"
| "add_and_flush e (Pending None) rm st =
     (if map_of st (uuid4 e) \<noteq> None then Inl IntegrityError
      else Inr (uuid4 e, st @ [(uuid4 e, rm)]))"
| "add_and_flush e (Pending (Some k)) rm st =
     (if map_of st k \<noteq> None then Inl IntegrityError
      else Inr (k, st @ [(k, rm)]))"

fun flush_changes :: "binding \<Rightarrow> ReportModel \<Rightarrow> dbsession \<Rightarrow> dbsession" where
  "flush_changes (Persistent k) rm st = AList.update k rm st"
| "flush_changes (Pending k) rm st = st"

text \<open>\<^verbatim>\<open>collection_post\<close> stamps \<^verbatim>\<open>request.validated\<close>, adds it and flushes.\<close>

definition collection_post :: "env \<Rightarrow> AdminReportModelView \<Rightarrow> dbsession \<Rightarrow> exn + response \<times> dbsession" where
  "collection_post e self st =
     (let (b, report_model) = validated (request self);
          report_model = report_model\<lparr>created_by := authenticated_userid (request self)\<rparr>;
          report_model = report_model\<lparr>updated_by := authenticated_userid (request self)\<rparr>
      in case add_and_flush e b report_model st of
           Inl x \<Rightarrow> Inl x
         | Inr (k, st') \<Rightarrow> Inr ((201, Dump (Some k) report_model), st'))"

definition get :: "AdminReportModelView \<Rightarrow> dbsession \<Rightarrow> exn + response \<times> dbsession" where
  "get self st =
     (case get_object self st of
        Inl x \<Rightarrow> Inl x
      | Inr (u, rm) \<Rightarrow> Inr ((200, Dump (Some u) rm), st))"

text \<open>
  \<^verbatim>\<open>put\<close> fetches the addressed record only to raise not-found; it stamps and dumps
  \<^verbatim>\<open>request.validated\<close>, whichever row that instance is bound to.
\<close>

definition put :: "env \<Rightarrow> AdminReportModelView \<Rightarrow> dbsession \<Rightarrow> exn + response \<times> dbsession" where
  "put e self st =
     (case get_object self st of
        Inl x \<Rightarrow> Inl x
      | Inr _ \<Rightarrow>
          (let (b, report_model) = validated (request self);
               report_model = report_model\<lparr>updated_by := authenticated_userid (request self)\<rparr>;
               report_model = report_model\<lparr>updated_at := now e\<rparr>
           in Inr ((200, Dump (binding_id b) report_model),
                   flush_changes b report_model st)))"

definition delete :: "AdminReportModelView \<Rightarrow> dbsession \<Rightarrow> exn + response \<times> dbsession" where
  "delete self st =
     (case get_object self st of
        Inl x \<Rightarrow> Inl x
      | Inr (u, rm) \<Rightarrow> Inr ((204, NoBody), AList.delete u st))"

text \<open>
  \<^verbatim>\<open>post_tjs_view\<close>: \<^verbatim>\<open>create_tjs_view\<close> creates a database view and leaves the table of
  report models as it is.
\<close>

definition post_tjs_view :: "env \<Rightarrow> AdminReportModelView \<Rightarrow> dbsession \<Rightarrow> exn + response \<times> dbsession" where
  "post_tjs_view e context st =
     (case get_object context st of
        Inl x \<Rightarrow> Inl x
      | Inr (u, report_model) \<Rightarrow> Inr ((200, TjsView (tjs_view_name e report_model)), st))"

section \<open>Schema validation\<close>

text \<open>
  Modelled from the spec: \<^verbatim>\<open>ReportModelSchema\<close> (\<^verbatim>\<open>drealcorsereports/schemas/reports.py\<close>) is
  not among the sources. The spec has create and update validate the submitted name for
  uniqueness and the submitted layer id against the layer-administrator check, each with a
  field-level error; the wording of the two messages is the one the tests of the views
  expect. The instance that a valid body loads carries the submitted name, layer id and
  schema document, which the tests of create and of update read back; the rest of it is
  \<open>session_instance\<close>.
\<close>

definition name_errors :: "dbsession \<Rightarrow> string \<Rightarrow> field_error list" where
  "name_errors st n =
     (if n \<in> set (map (\<lambda>(k, rm). name rm) st)
      then [(''body'', ''name'', [''Report model named '' @ n @ '' already exists.''])]
      else [])"

definition layer_id_errors :: "env \<Rightarrow> request \<Rightarrow> string \<Rightarrow> field_error list" where
  "layer_id_errors e req l =
     (if is_user_admin_on_layer e req l then []
      else [(''body'', ''layer_id'', [''You're not admin on layer '' @ l @ ''.''])])"

definition load_instance :: "env \<Rightarrow> json_body \<Rightarrow> dbsession \<Rightarrow> orm_instance" where
  "load_instance e b st =
     (case session_instance e b st of
        (bound, rm) \<Rightarrow>
          (bound, rm\<lparr>name := body_name b, layer_id := body_layer_id b,
                      custom_field_schema := body_custom_field_schema b\<rparr>))"

definition ReportModelSchema_load ::
  "env \<Rightarrow> request \<Rightarrow> dbsession \<Rightarrow> field_error list + orm_instance" where
  "ReportModelSchema_load e req st =
     (let errors = name_errors st (body_name (json_body req))
                   @ layer_id_errors e req (body_layer_id (json_body req))
      in if errors \<noteq> [] then Inl errors
         else Inr (load_instance e (json_body req) st))"

text \<open>
  \<^verbatim>\<open>marshmallow_validator\<close> hands the body to the schema with the session; Cornice stores
  the loaded instance in \<^verbatim>\<open>request.validated\<close>, or answers 400 with the errors.
\<close>

definition marshmallow_validator :: "env \<Rightarrow> request \<Rightarrow> dbsession \<Rightarrow> exn + request" where
  "marshmallow_validator e req st =
     (case ReportModelSchema_load e req st of
        Inl errors \<Rightarrow> Inl (HTTPBadRequest errors)
      | Inr inst \<Rightarrow> Inr (req\<lparr>validated := inst\<rparr>))"

section \<open>Request handling\<close>

text \<open>
  Pyramid's ACL authorization policy: the first entry whose principal is one of the
  caller's and whose permissions hold the one asked for decides; no entry denies.
\<close>

fun permits :: "ace list \<Rightarrow> string list \<Rightarrow> string \<Rightarrow> bool" where
  "permits [] principals permission = False"
| "permits ((ace_action, ace_principal, ace_permissions) # acl) principals permission =
     (if (case ace_principal of None \<Rightarrow> False | Some p \<Rightarrow> p \<in> set principals)
         \<and> permission \<in> set ace_permissions
      then ace_action = Allow
      else permits acl principals permission)"

text \<open>
  The routes and views that the \<^verbatim>\<open>@resource\<close>, \<^verbatim>\<open>@view\<close> and \<^verbatim>\<open>Service\<close>
  declarations register: \<^verbatim>\<open>/report_models\<close>, \<^verbatim>\<open>/report_models/{id}\<close> and
  \<^verbatim>\<open>/report_models/{id}/tjs_view\<close>, each view with its permission.
\<close>

datatype route = Route_collection | Route_item string | Route_tjs_view string

datatype verb = GET | POST | PUT | DELETE

fun matchdict :: "route \<Rightarrow> string option" where
  "matchdict Route_collection = None"
| "matchdict (Route_item s) = Some s"
| "matchdict (Route_tjs_view s) = Some s"

fun permission :: "route \<Rightarrow> verb \<Rightarrow> string option" where
  "permission Route_collection GET = Some ''list''"
| "permission Route_collection POST = Some ''add''"
| "permission (Route_item s) GET = Some ''view''"
| "permission (Route_item s) PUT = Some ''edit''"
| "permission (Route_item s) DELETE = Some ''delete''"
| "permission (Route_tjs_view s) POST = Some ''edit''"
| "permission r v = None"

definition with_validators ::
  "env \<Rightarrow> AdminReportModelView \<Rightarrow> dbsession
   \<Rightarrow> (AdminReportModelView \<Rightarrow> exn + response \<times> dbsession) \<Rightarrow> exn + response \<times> dbsession" where
  "with_validators e self st k =
     (case marshmallow_validator e (request self) st of
        Inl x \<Rightarrow> Inl x
      | Inr req \<Rightarrow> k (self\<lparr>request := req\<rparr>))"

fun call_view ::
  "env \<Rightarrow> AdminReportModelView \<Rightarrow> route \<Rightarrow> verb \<Rightarrow> dbsession \<Rightarrow> exn + response \<times> dbsession" where
  "call_view e self Route_collection GET st = collection_get self st"
| "call_view e self Route_collection POST st =
     with_validators e self st (\<lambda>self. collection_post e self st)"
| "call_view e self (Route_item s) GET st = get self st"
| "call_view e self (Route_item s) PUT st =
     with_validators e self st (\<lambda>self. put e self st)"
| "call_view e self (Route_item s) DELETE st = delete self st"
| "call_view e self (Route_tjs_view s) POST st = post_tjs_view e self st"
| "call_view e self r v st = Inl HTTPMethodNotAllowed"

text \<open>
  One request: the router fills the matchdict, the route factory builds the resource, the
  permission of the view is checked against the resource's ACL, then the validators and
  the view run.
\<close>

definition dispatch ::
  "env \<Rightarrow> request \<Rightarrow> route \<Rightarrow> verb \<Rightarrow> dbsession \<Rightarrow> exn + response \<times> dbsession" where
  "dispatch e req r v st =
     (case dunder_init e (req\<lparr>matchdict_id := matchdict r\<rparr>) of
        Inl x \<Rightarrow> Inl x
      | Inr self \<Rightarrow>
          (case permission r v of
             None \<Rightarrow> Inl HTTPMethodNotAllowed
           | Some p \<Rightarrow>
               (case dunder_acl e self st of
                  Inl x \<Rightarrow> Inl x
                | Inr acl \<Rightarrow>
                    if permits acl (effective_principals (request self)) p
                    then call_view e self r v st
                    else Inl HTTPForbidden)))"

text \<open>The session is committed when the view returns and rolled back when it raises.\<close>

definition handle ::
  "env \<Rightarrow> request \<Rightarrow> route \<Rightarrow> verb \<Rightarrow> dbsession \<Rightarrow> (exn + response) \<times> dbsession" where
  "handle e req r v st =
     (case dispatch e req r v st of
        Inl x \<Rightarrow> (Inl x, st)
      | Inr (resp, st') \<Rightarrow> (Inr resp, st'))"

text \<open>
  The status of the answer: the HTTP exceptions carry their own, and an exception that no
  exception view handles ends as an internal server error.
\<close>

fun status_code :: "exn + response \<Rightarrow> nat" where
  "status_code (Inr (code, b)) = code"
| "status_code (Inl (HTTPBadRequest errors)) = 400"
| "status_code (Inl HTTPForbidden) = 403"
| "status_code (Inl HTTPNotFound) = 404"
| "status_code (Inl HTTPMethodNotAllowed) = 405"
| "status_code (Inl x) = 500"

section \<open>The layer listing service\<close>

text \<open>
  The two documents of the map server, as \<^verbatim>\<open>Response.json()\<close> decodes them: the layers
  under \<^verbatim>\<open>["layers"]["layer"]\<close>, each with its \<^verbatim>\<open>name\<close>, and the ACL document as the
  items of a dictionary from rule keys to principal lists.
\<close>

datatype layer = Layer (layer_name: string) (href: string)

record layers_response =
  layers_status :: int
  layers_json :: "layer list"

record acl_response =
  acl_status :: int
  acl_json :: "(string \<times> string) list"

text \<open>\<^verbatim>\<open>Response.raise_for_status\<close> of the requests library raises for 4xx and 5xx.\<close>

definition raise_for_status :: "layers_response \<Rightarrow> exn + unit" where
  "raise_for_status r =
     (if 400 \<le> layers_status r \<and> layers_status r < 600
      then Inl (HTTPError (layers_status r)) else Inr ())"

text \<open>
  Modelled from the spec: \<^verbatim>\<open>get_geoserver_layers_acl\<close> of \<^verbatim>\<open>drealcorsereports.security\<close>
  is not among the sources. The spec has it fetch the ACL document from the map server,
  a non-2xx response propagating as a failure of the request.
\<close>

definition get_geoserver_layers_acl :: "acl_response \<Rightarrow> exn + (string \<times> string) list" where
  "get_geoserver_layers_acl r =
     (if 200 \<le> acl_status r \<and> acl_status r < 300
      then Inr (acl_json r) else Inl (HTTPError (acl_status r)))"

text \<open>
  \<^verbatim>\<open>get_layers\<close>. The class \<^verbatim>\<open>Rule\<close> is imported from \<^verbatim>\<open>drealcorsereports.security\<close>;
  the two loops are written for any \<open>parse\<close> and \<open>match\<close>.
\<close>

fun rules_loop ::
  "(string \<Rightarrow> string \<Rightarrow> 'rule) \<Rightarrow> ('rule \<Rightarrow> string \<Rightarrow> string list \<Rightarrow> bool)
   \<Rightarrow> request \<Rightarrow> layer \<Rightarrow> (string \<times> string) list \<Rightarrow> string list \<Rightarrow> string list" where
  "rules_loop parse match req l [] authorized_layers = authorized_layers"
| "rules_loop parse match req l ((k, v) # layer_rules_json) authorized_layers =
     (let rule = parse k v
      in rules_loop parse match req l layer_rules_json
           (if match rule (layer_name l) (effective_principals req)
            then authorized_layers @ [layer_name l]
            else authorized_layers))"

fun layers_loop ::
  "(string \<Rightarrow> string \<Rightarrow> 'rule) \<Rightarrow> ('rule \<Rightarrow> string \<Rightarrow> string list \<Rightarrow> bool)
   \<Rightarrow> request \<Rightarrow> layer list \<Rightarrow> (string \<times> string) list \<Rightarrow> string list \<Rightarrow> string list" where
  "layers_loop parse match req [] layer_rules_json authorized_layers = authorized_layers"
| "layers_loop parse match req (l # layers) layer_rules_json authorized_layers =
     layers_loop parse match req layers layer_rules_json
       (rules_loop parse match req l layer_rules_json authorized_layers)"

definition get_layers ::
  "(string \<Rightarrow> string \<Rightarrow> 'rule) \<Rightarrow> ('rule \<Rightarrow> string \<Rightarrow> string list \<Rightarrow> bool)
   \<Rightarrow> request \<Rightarrow> layers_response \<Rightarrow> acl_response \<Rightarrow> exn + string list" where
  "get_layers parse match req layers_request acl_request =
     (case raise_for_status layers_request of
        Inl x \<Rightarrow> Inl x
      | Inr _ \<Rightarrow>
          (case get_geoserver_layers_acl acl_request of
             Inl x \<Rightarrow> Inl x
           | Inr layer_rules_json \<Rightarrow>
               Inr (layers_loop parse match req (layers_json layers_request)
                      layer_rules_json [])))"

section \<open>The ACL rule matcher\<close>

text \<open>
  Modelled from the spec: the class \<^verbatim>\<open>Rule\<close> of \<^verbatim>\<open>drealcorsereports.security\<close> is not
  among the sources. The spec has a rule hold a mode, a layer pattern and a list of
  configured principals, with wildcard layer patterns and a distinguished principal for
  anyone; \<^verbatim>\<open>match\<close> is true when the layer pattern matches the layer name, the mode
  grants access and a configured principal is one of the caller's. The spec fixes neither
  the wildcard syntax, nor the modes that grant access, nor the name of the principal for
  anyone: they are the three fields of \<open>rule_syntax\<close>.
\<close>

record Rule =
  rule_mode :: string
  rule_layer :: string
  rule_principals :: "string list"

record rule_syntax =
  layer_pattern_matches :: "string \<Rightarrow> string \<Rightarrow> bool"
  mode_grants :: "string \<Rightarrow> bool"
  anyone :: string

fun any_principal :: "string \<Rightarrow> string list \<Rightarrow> string list \<Rightarrow> bool" where
  "any_principal everybody [] principals = False"
| "any_principal everybody (p # configured) principals =
     (if p = everybody \<or> p \<in> set principals then True
      else any_principal everybody configured principals)"

definition Rule_match :: "rule_syntax \<Rightarrow> Rule \<Rightarrow> string \<Rightarrow> string list \<Rightarrow> bool" where
  "Rule_match sx self l principals =
     (if \<not> layer_pattern_matches sx (rule_layer self) l then False
      else if \<not> mode_grants sx (rule_mode self) then False
      else any_principal (anyone sx) (rule_principals self) principals)"

section \<open>The fixtures of the test suite\<close>

text \<open>
  After \<^verbatim>\<open>tests/test_views/test_admin.py\<close>: two stored report models, one on a layer the
  patched layer-administrator check allows and one on a layer it denies, and requests
  whose headers name the user and the roles. Primary keys, times and schema documents are
  abbreviated; the ids \<^verbatim>\<open>1\<close>, \<^verbatim>\<open>2\<close> and \<^verbatim>\<open>3\<close> stand for three UUIDs, the third
  one not stored.
\<close>

definition test_UUID :: "string \<Rightarrow> uuid option" where
  "test_UUID s =
     (if s = ''1'' then Some 1 else if s = ''2'' then Some 2
      else if s = ''3'' then Some 3 else None)"

definition blank_row :: ReportModel where
  "blank_row =
     \<lparr>name = [], layer_id = [], custom_field_schema = [],
      created_by = None, created_at = 100, updated_by = None, updated_at = 100\<rparr>"

text \<open>
  One schema session: a body whose \<^verbatim>\<open>id\<close> is the key of a stored row loads the session's
  object for that row; any other body loads a new object, with the column defaults.
\<close>

definition test_session :: "json_body \<Rightarrow> dbsession \<Rightarrow> orm_instance" where
  "test_session b st =
     (case body_id b of
        None \<Rightarrow> (Pending None, blank_row)
      | Some s \<Rightarrow>
          (case test_UUID s of
             None \<Rightarrow> (Pending None, blank_row)
           | Some k \<Rightarrow>
               (case map_of st k of
                  None \<Rightarrow> (Pending (Some k), blank_row)
                | Some rm \<Rightarrow> (Persistent k, rm))))"

definition test_env :: env where
  "test_env =
     \<lparr>UUID = test_UUID,
      is_user_admin_on_layer = (\<lambda>req l. l = ''ALLOWED_LAYER''),
      now = 100, uuid4 = 3, tjs_view_name = name,
      session_instance = test_session\<rparr>"

definition existing_allowed :: ReportModel where
  "existing_allowed =
     \<lparr>name = ''existing_allowed'', layer_id = ''ALLOWED_LAYER'',
      custom_field_schema = ''{test: test}'',
      created_by = Some ''toto'', created_at = 33,
      updated_by = Some ''tata'', updated_at = 34\<rparr>"

definition existing_denied :: ReportModel where
  "existing_denied =
     \<lparr>name = ''existing_denied'', layer_id = ''DENIED_LAYER'',
      custom_field_schema = ''{test: test}'',
      created_by = Some ''toto'', created_at = 33,
      updated_by = Some ''tata'', updated_at = 34\<rparr>"

definition test_data :: dbsession where
  "test_data = [(1, existing_allowed), (2, existing_denied)]"

definition post_payload :: "string \<Rightarrow> string \<Rightarrow> json_body" where
  "post_payload n l =
     \<lparr>body_id = None, body_name = n, body_layer_id = l,
      body_custom_field_schema = ''{test: test}''\<rparr>"

text \<open>The payload of an update of the first record.\<close>

definition put_payload :: "string \<Rightarrow> string \<Rightarrow> json_body" where
  "put_payload n l =
     \<lparr>body_id = Some ''1'', body_name = n, body_layer_id = l,
      body_custom_field_schema = ''{changed: changed}''\<rparr>"

definition auth_request :: "string \<Rightarrow> string list \<Rightarrow> json_body \<Rightarrow> request" where
  "auth_request username roles b =
     \<lparr>matchdict_id = None, authenticated_userid = Some username,
      effective_principals = [''system.Everyone'', ''system.Authenticated'', username] @ roles,
      json_body = b,
      validated = (Pending None, blank_row)\<rparr>"

definition reports_admin :: "json_body \<Rightarrow> request" where
  "reports_admin b = auth_request ''USER_ADMIN'' [''ROLE_REPORTS_ADMIN''] b"

definition no_roles :: "json_body \<Rightarrow> request" where
  "no_roles b = auth_request ''USER_ADMIN'' [] b"

text \<open>
  The rows stored by a create of \<^verbatim>\<open>new\<close> and by an update to \<^verbatim>\<open>updated\<close> of the
  first record, as \<^verbatim>\<open>test_collection_post_success\<close> and \<^verbatim>\<open>test_put_success\<close> expect
  them.
\<close>

definition new_row :: ReportModel where
  "new_row = \<lparr>name = ''new'', layer_id = ''ALLOWED_LAYER'',
      custom_field_schema = ''{test: test}'',
      created_by = Some ''USER_ADMIN'', created_at = 100,
      updated_by = Some ''USER_ADMIN'', updated_at = 100\<rparr>"


section \<open>Sample inputs\<close>

text \<open>
  A caller with the superuser role, and a layer list and an ACL document of the map server
  with one reading of its rules.
\<close>

definition superuser :: "json_body \<Rightarrow> request" where
  "superuser b = auth_request ''root'' [''ROLE_SUPERUSER''] b"

definition sample_syntax :: rule_syntax where
  "sample_syntax =
     \<lparr>layer_pattern_matches = (\<lambda>pattern l. pattern = ''*'' \<or> pattern = l),
      mode_grants = (\<lambda>m. m = ''r''),
      anyone = ''*''\<rparr>"

definition sample_parse :: "string \<Rightarrow> string \<Rightarrow> Rule" where
  "sample_parse k v =
     \<lparr>rule_mode = takeWhile (\<lambda>c. c \<noteq> CHR '':'') k,
      rule_layer = drop 1 (dropWhile (\<lambda>c. c \<noteq> CHR '':'') k),
      rule_principals = [v]\<rparr>"

definition sample_layers :: layers_response where
  "sample_layers =
     \<lparr>layers_status = 200,
      layers_json = [Layer ''roads'' ''http://geoserver/roads'',
                     Layer ''rivers'' ''http://geoserver/rivers'']\<rparr>"

definition sample_acl :: acl_response where
  "sample_acl =
     \<lparr>acl_status = 200,
      acl_json = [(''r:roads'', ''ROLE_REPORTS_ADMIN''), (''w:rivers'', ''ROLE_REPORTS_ADMIN'')]\<rparr>"

section \<open>Invariants of the table\<close>

text \<open>Primary keys are unique, and so are the names of the report models.\<close>

definition names_unique :: "dbsession \<Rightarrow> bool" where
  "names_unique st = (distinct (map fst st) \<and> distinct (map (\<lambda>(k, rm). name rm) st))"

lemmas view_defs =
  collection_get_def collection_post_def get_def put_def delete_def post_tjs_view_def
  get_object_def

lemmas schema_defs =
  with_validators_def marshmallow_validator_def ReportModelSchema_load_def
  load_instance_def name_errors_def layer_id_errors_def

lemmas fixture_defs =
  test_env_def test_UUID_def test_session_def blank_row_def test_data_def
  existing_allowed_def existing_denied_def post_payload_def put_payload_def
  auth_request_def reports_admin_def no_roles_def superuser_def

section \<open>Permissions\<close>

lemma permits_static_acl:
  "permits static_acl ps p =
     ((''ROLE_REPORTS_ADMIN'' \<in> set ps \<and> p \<in> set [''list'', ''add'', ''view''])
      \<or> (''ROLE_SUPERUSER'' \<in> set ps \<and> p \<in> set [''list'', ''add'', ''view'', ''edit'', ''delete'']))"
  by (simp add: static_acl_def)

lemma permits_dynamic_acl:
  "permits (static_acl @ [dynamic_ace req]) ps p =
     (permits static_acl ps p
      \<or> ((case authenticated_userid req of None \<Rightarrow> False | Some uid \<Rightarrow> uid \<in> set ps)
          \<and> p \<in> set [''edit'', ''delete'']))"
  by (auto simp add: static_acl_def dynamic_ace_def split: option.splits)

lemma dynamic_ace_not_static: "dynamic_ace req \<notin> set static_acl"
  by (simp add: static_acl_def dynamic_ace_def)

lemma dispatch_item_init:
  assumes "s \<noteq> []" and "UUID e s = Some u" and "matchdict r = Some s"
  shows "dunder_init e (req\<lparr>matchdict_id := matchdict r\<rparr>)
           = Inr \<lparr>request = req\<lparr>matchdict_id := Some s\<rparr>, report_models_id = Some u\<rparr>"
  using assms by (simp add: dunder_init_def)

lemma acl_collection:
  "dunder_acl e \<lparr>request = rq, report_models_id = None\<rparr> st = Inr static_acl"
  by (simp add: dunder_acl_def)

lemma acl_missing:
  assumes "map_of st u = None"
  shows "dunder_acl e \<lparr>request = rq, report_models_id = Some u\<rparr> st =
           (if ''ROLE_REPORTS_ADMIN'' \<in> set (effective_principals rq)
            then Inl HTTPNotFound else Inr static_acl)"
  using assms by (simp add: dunder_acl_def get_object_def)

lemma acl_existing:
  assumes "map_of st u = Some rm"
  shows "dunder_acl e \<lparr>request = rq, report_models_id = Some u\<rparr> st =
           (if ''ROLE_REPORTS_ADMIN'' \<in> set (effective_principals rq)
               \<and> is_user_admin_on_layer e rq (layer_id rm)
            then Inr (static_acl @ [dynamic_ace rq]) else Inr static_acl)"
  using assms by (simp add: dunder_acl_def get_object_def)

text \<open>
  C1, as amended. For an item-scoped request on a stored record, the computed ACL holds the
  dynamic grant of edit and delete to the authenticated principal if and only if the
  caller holds \<^verbatim>\<open>ROLE_REPORTS_ADMIN\<close> and is an administrator on the record's layer. A
  caller holding \<^verbatim>\<open>ROLE_REPORTS_ADMIN\<close> and not \<^verbatim>\<open>ROLE_SUPERUSER\<close> who is not an
  administrator on that layer is permitted view and denied edit and delete. The ACL does
  not depend on who created the record.
\<close>

theorem acl_dynamic_grant:
  assumes "report_models_id self = Some u" and "map_of st u = Some rm"
  shows "\<exists>acl. dunder_acl e self st = Inr acl
     \<and> (dynamic_ace (request self) \<in> set acl \<longleftrightarrow>
          ''ROLE_REPORTS_ADMIN'' \<in> set (effective_principals (request self))
          \<and> is_user_admin_on_layer e (request self) (layer_id rm))
     \<and> (''ROLE_REPORTS_ADMIN'' \<in> set (effective_principals (request self))
          \<and> ''ROLE_SUPERUSER'' \<notin> set (effective_principals (request self))
          \<and> \<not> is_user_admin_on_layer e (request self) (layer_id rm) \<longrightarrow>
            permits acl (effective_principals (request self)) ''view''
            \<and> \<not> permits acl (effective_principals (request self)) ''edit''
            \<and> \<not> permits acl (effective_principals (request self)) ''delete'')
     \<and> dunder_acl e self (AList.update u (rm\<lparr>created_by := c\<rparr>) st) = Inr acl"
  using assms
  by (simp add: dunder_acl_def get_object_def update_conv' dynamic_ace_not_static
      permits_static_acl)

theorem acl_dynamic_grant_witness:
  "report_models_id \<lparr>request = reports_admin (put_payload ''updated'' ''ALLOWED_LAYER''),
                     report_models_id = Some 2\<rparr> = Some 2
   \<and> map_of test_data 2 = Some existing_denied
   \<and> ''ROLE_REPORTS_ADMIN''
        \<in> set (effective_principals (reports_admin (put_payload ''updated'' ''ALLOWED_LAYER'')))
   \<and> ''ROLE_SUPERUSER''
        \<notin> set (effective_principals (reports_admin (put_payload ''updated'' ''ALLOWED_LAYER'')))
   \<and> \<not> is_user_admin_on_layer test_env
          (reports_admin (put_payload ''updated'' ''ALLOWED_LAYER'')) (layer_id existing_denied)
   \<and> dunder_acl test_env
        \<lparr>request = reports_admin (put_payload ''updated'' ''ALLOWED_LAYER''),
         report_models_id = Some 2\<rparr> test_data = Inr static_acl
   \<and> permits static_acl
        (effective_principals (reports_admin (put_payload ''updated'' ''ALLOWED_LAYER''))) ''view''
   \<and> \<not> permits static_acl
        (effective_principals (reports_admin (put_payload ''updated'' ''ALLOWED_LAYER''))) ''edit''
   \<and> \<not> permits static_acl
        (effective_principals (reports_admin (put_payload ''updated'' ''ALLOWED_LAYER''))) ''delete''"
  using acl_dynamic_grant
    [of "\<lparr>request = reports_admin (put_payload ''updated'' ''ALLOWED_LAYER''),
          report_models_id = Some 2\<rparr>" 2 test_data existing_denied test_env None]
  by (simp add: fixture_defs dunder_acl_def get_object_def)

text \<open>
  C1 as stated fails: a caller without \<^verbatim>\<open>ROLE_REPORTS_ADMIN\<close> who is an administrator on
  the layer of the record receives no dynamic grant and may not even view the record, and
  a superuser who is not an administrator on the layer is permitted edit.
\<close>

theorem acl_dynamic_grant_counterexample:
  "is_user_admin_on_layer test_env (no_roles (put_payload ''updated'' ''ALLOWED_LAYER''))
      (layer_id existing_allowed)
   \<and> map_of test_data 1 = Some existing_allowed
   \<and> dunder_acl test_env
        \<lparr>request = no_roles (put_payload ''updated'' ''ALLOWED_LAYER''),
         report_models_id = Some 1\<rparr> test_data = Inr static_acl
   \<and> dynamic_ace (no_roles (put_payload ''updated'' ''ALLOWED_LAYER'')) \<notin> set static_acl
   \<and> \<not> permits static_acl
        (effective_principals (no_roles (put_payload ''updated'' ''ALLOWED_LAYER''))) ''view''
   \<and> \<not> is_user_admin_on_layer test_env (superuser (put_payload ''updated'' ''ALLOWED_LAYER''))
          (layer_id existing_denied)
   \<and> map_of test_data 2 = Some existing_denied
   \<and> dunder_acl test_env
        \<lparr>request = superuser (put_payload ''updated'' ''ALLOWED_LAYER''),
         report_models_id = Some 2\<rparr> test_data = Inr static_acl
   \<and> permits static_acl
        (effective_principals (superuser (put_payload ''updated'' ''ALLOWED_LAYER''))) ''edit''"
  by (simp add: fixture_defs dunder_acl_def get_object_def static_acl_def dynamic_ace_def)

section \<open>Missing records and unparseable ids\<close>

text \<open>
  C9. An item-scoped request (GET, PUT, DELETE, or POST of the \<^verbatim>\<open>tjs_view\<close> action) by a
  caller holding \<^verbatim>\<open>ROLE_REPORTS_ADMIN\<close>, on an id that parses and matches no stored record:
  the computation of the ACL fetches the record and raises not-found, so the request
  yields 404, never 403, and the table is left as it was.
\<close>

theorem missing_record_is_not_found:
  assumes "s \<noteq> []" and "UUID e s = Some u" and "map_of st u = None"
    and "''ROLE_REPORTS_ADMIN'' \<in> set (effective_principals req)"
    and "(r, v) \<in> set [(Route_item s, GET), (Route_item s, PUT), (Route_item s, DELETE),
                        (Route_tjs_view s, POST)]"
  shows "dunder_acl e \<lparr>request = req\<lparr>matchdict_id := Some s\<rparr>, report_models_id = Some u\<rparr> st
           = Inl HTTPNotFound
     \<and> handle e req r v st = (Inl HTTPNotFound, st)
     \<and> status_code (fst (handle e req r v st)) = 404"
proof -
  let ?self = "\<lparr>request = req\<lparr>matchdict_id := Some s\<rparr>, report_models_id = Some u\<rparr>"
  have acl: "dunder_acl e ?self st = Inl HTTPNotFound"
    using assms(3,4) by (simp add: acl_missing)
  have m: "matchdict r = Some s" and p: "permission r v \<noteq> None"
    using assms(5) by auto
  have "dispatch e req r v st = Inl HTTPNotFound"
    using dispatch_item_init [OF assms(1,2) m, of req] acl p
    by (auto simp add: dispatch_def)
  then show ?thesis using acl by (simp add: handle_def)
qed

theorem missing_record_is_not_found_witness:
  "''3'' \<noteq> [] \<and> UUID test_env ''3'' = Some 3 \<and> map_of test_data 3 = None
   \<and> ''ROLE_REPORTS_ADMIN''
        \<in> set (effective_principals (reports_admin (put_payload ''updated'' ''ALLOWED_LAYER'')))
   \<and> (Route_item ''3'', PUT)
        \<in> set [(Route_item ''3'', GET), (Route_item ''3'', PUT), (Route_item ''3'', DELETE),
                (Route_tjs_view ''3'', POST)]
   \<and> handle test_env (reports_admin (put_payload ''updated'' ''ALLOWED_LAYER''))
        (Route_item ''3'') PUT test_data = (Inl HTTPNotFound, test_data)"
  using missing_record_is_not_found
    [of "''3''" test_env 3 test_data "reports_admin (put_payload ''updated'' ''ALLOWED_LAYER'')"
        "Route_item ''3''" PUT]
  by (simp add: fixture_defs)

text \<open>
  C10. A request to \<^verbatim>\<open>/report_models/{id}\<close> whose id segment \<^verbatim>\<open>uuid.UUID\<close> does not
  parse: the constructor of the resource raises \<^verbatim>\<open>ValueError\<close> before any permission,
  validator or view is reached, whatever the verb; the request ends as an internal error
  (500), not as 404 or 400.
\<close>

theorem unparseable_id_is_internal_error:
  assumes "s \<noteq> []" and "UUID e s = None"
  shows "dunder_init e (req\<lparr>matchdict_id := Some s\<rparr>) = Inl ValueError
     \<and> handle e req (Route_item s) v st = (Inl ValueError, st)
     \<and> status_code (fst (handle e req (Route_item s) v st)) = 500"
  using assms by (simp add: dunder_init_def dispatch_def handle_def)

theorem unparseable_id_is_internal_error_witness:
  "''not-a-uuid'' \<noteq> [] \<and> UUID test_env ''not-a-uuid'' = None
   \<and> handle test_env (reports_admin (put_payload ''updated'' ''ALLOWED_LAYER''))
        (Route_item ''not-a-uuid'') GET test_data = (Inl ValueError, test_data)
   \<and> status_code (Inl ValueError) = 500"
  using unparseable_id_is_internal_error
    [of "''not-a-uuid''" test_env "reports_admin (put_payload ''updated'' ''ALLOWED_LAYER'')"
        GET test_data]
  by (simp add: test_env_def test_UUID_def)

section \<open>Deleting\<close>

text \<open>
  C6, as amended. DELETE on a well-formed id that matches no stored record fails with 404
  for a caller holding \<^verbatim>\<open>ROLE_REPORTS_ADMIN\<close> or \<^verbatim>\<open>ROLE_SUPERUSER\<close> (with 403 for any other
  caller) and leaves the table unchanged. On a stored record it removes exactly that
  record and returns 204 for a caller permitted to delete (a superuser, or a reports
  administrator who is an administrator on the record's layer and whose authenticated
  user id is one of its effective principals), and answers 403 and leaves the table
  unchanged for any other caller. After the removal a GET of the same id
  by such a caller yields 404.
\<close>

theorem delete_item:
  assumes "s \<noteq> []" and "UUID e s = Some u"
  shows "(map_of st u = None \<longrightarrow>
            handle e req (Route_item s) DELETE st =
              (Inl (if ''ROLE_REPORTS_ADMIN'' \<in> set (effective_principals req)
                       \<or> ''ROLE_SUPERUSER'' \<in> set (effective_principals req)
                    then HTTPNotFound else HTTPForbidden), st))
     \<and> (map_of st u = Some rm \<longrightarrow>
            handle e req (Route_item s) DELETE st =
              (if ''ROLE_SUPERUSER'' \<in> set (effective_principals req)
                  \<or> (''ROLE_REPORTS_ADMIN'' \<in> set (effective_principals req)
                      \<and> is_user_admin_on_layer e (req\<lparr>matchdict_id := Some s\<rparr>) (layer_id rm)
                      \<and> (case authenticated_userid req of None \<Rightarrow> False
                          | Some uid \<Rightarrow> uid \<in> set (effective_principals req)))
               then (Inr (204, NoBody), AList.delete u st)
               else (Inl HTTPForbidden, st)))
     \<and> map_of (AList.delete u st) u = None
     \<and> (\<forall>k. k \<noteq> u \<longrightarrow> map_of (AList.delete u st) k = map_of st k)
     \<and> (''ROLE_REPORTS_ADMIN'' \<in> set (effective_principals req)
          \<or> ''ROLE_SUPERUSER'' \<in> set (effective_principals req) \<longrightarrow>
            handle e req (Route_item s) GET (AList.delete u st) =
              (Inl HTTPNotFound, AList.delete u st))"
proof -
  let ?rq = "req\<lparr>matchdict_id := Some s\<rparr>"
  let ?self = "\<lparr>request = ?rq, report_models_id = Some u\<rparr>"
  have init: "dunder_init e (req\<lparr>matchdict_id := matchdict (Route_item s)\<rparr>) = Inr ?self"
    using dispatch_item_init [OF assms, of "Route_item s" req] by simp
  have gone: "map_of (AList.delete u st) u = None"
    by (simp add: delete_conv')
  have missing: "handle e req (Route_item s) v st' =
      (Inl (if ''ROLE_REPORTS_ADMIN'' \<in> set (effective_principals req)
               \<or> ''ROLE_SUPERUSER'' \<in> set (effective_principals req)
            then HTTPNotFound else HTTPForbidden), st')"
    if "map_of st' u = None" and "v = GET \<or> v = DELETE" for st' v
    using that init acl_missing [OF that(1), of e ?rq]
    by (auto simp add: handle_def dispatch_def permits_static_acl get_def delete_def
        get_object_def)
  have existing: "handle e req (Route_item s) DELETE st =
      (if ''ROLE_SUPERUSER'' \<in> set (effective_principals req)
          \<or> (''ROLE_REPORTS_ADMIN'' \<in> set (effective_principals req)
              \<and> is_user_admin_on_layer e ?rq (layer_id rm)
              \<and> (case authenticated_userid req of None \<Rightarrow> False
                  | Some uid \<Rightarrow> uid \<in> set (effective_principals req)))
       then (Inr (204, NoBody), AList.delete u st)
       else (Inl HTTPForbidden, st))"
    if "map_of st u = Some rm"
    using that init acl_existing [OF that, of e ?rq]
    by (auto simp add: handle_def dispatch_def permits_static_acl permits_dynamic_acl
        delete_def get_object_def split: option.splits)
  show ?thesis
    using missing [of st DELETE] missing [OF gone, of GET] existing gone
    by (simp add: delete_conv')
qed

theorem delete_item_witness:
  "''1'' \<noteq> [] \<and> UUID test_env ''1'' = Some 1 \<and> map_of test_data 1 = Some existing_allowed
   \<and> handle test_env (reports_admin (put_payload ''updated'' ''ALLOWED_LAYER''))
        (Route_item ''1'') DELETE test_data = (Inr (204, NoBody), [(2, existing_denied)])
   \<and> handle test_env (reports_admin (put_payload ''updated'' ''ALLOWED_LAYER''))
        (Route_item ''1'') GET [(2, existing_denied)] = (Inl HTTPNotFound, [(2, existing_denied)])
   \<and> ''3'' \<noteq> [] \<and> UUID test_env ''3'' = Some 3 \<and> map_of test_data 3 = None
   \<and> handle test_env (reports_admin (put_payload ''updated'' ''ALLOWED_LAYER''))
        (Route_item ''3'') DELETE test_data = (Inl HTTPNotFound, test_data)"
  using delete_item
    [of "''1''" test_env 1 test_data "reports_admin (put_payload ''updated'' ''ALLOWED_LAYER'')"
        existing_allowed]
    delete_item
    [of "''3''" test_env 3 test_data "reports_admin (put_payload ''updated'' ''ALLOWED_LAYER'')"
        existing_allowed]
  by (simp add: fixture_defs AList.delete_eq)

text \<open>
  C6 as stated fails: for a caller without a role DELETE on an id that matches no record
  is answered 403, and a reports administrator who is not an administrator on the layer
  of a stored record gets 403 and the record stays.
\<close>

theorem delete_item_counterexample:
  "UUID test_env ''3'' = Some 3 \<and> map_of test_data 3 = None
   \<and> handle test_env (no_roles (put_payload ''updated'' ''ALLOWED_LAYER''))
        (Route_item ''3'') DELETE test_data = (Inl HTTPForbidden, test_data)
   \<and> UUID test_env ''2'' = Some 2 \<and> map_of test_data 2 = Some existing_denied
   \<and> handle test_env (reports_admin (put_payload ''updated'' ''ALLOWED_LAYER''))
        (Route_item ''2'') DELETE test_data = (Inl HTTPForbidden, test_data)"
  by (simp add: fixture_defs handle_def dispatch_def dunder_init_def dunder_acl_def
      get_object_def static_acl_def)

section \<open>Results of the views and of the validator\<close>

lemma init_request:
  assumes "dunder_init e rq = Inr self"
  shows "request self = rq"
  using assms by (auto simp add: dunder_init_def split: if_splits option.splits)

lemma acl_raises_not_found:
  assumes "dunder_acl e self st = Inl x"
  shows "x = HTTPNotFound"
  using assms
  by (auto simp add: dunder_acl_def get_object_def split: if_splits option.splits)

lemma dispatch_Inr:
  assumes "dispatch e req r v st = Inr x"
  obtains self where "dunder_init e (req\<lparr>matchdict_id := matchdict r\<rparr>) = Inr self"
    and "call_view e self r v st = Inr x"
  using assms
  by (auto simp add: dispatch_def split: sum.splits option.splits if_splits)

lemma handle_Inr:
  assumes "handle e req r v st = (Inr resp, st')"
  shows "dispatch e req r v st = Inr (resp, st')"
  using assms by (auto simp add: handle_def split: sum.splits)

lemma validator_Inr:
  assumes "marshmallow_validator e rq st = Inr rq'"
  shows "rq' = rq\<lparr>validated := load_instance e (json_body rq) st\<rparr>"
    and "name_errors st (body_name (json_body rq)) = []"
    and "is_user_admin_on_layer e rq (body_layer_id (json_body rq))"
  using assms
  by (auto simp add: marshmallow_validator_def ReportModelSchema_load_def Let_def
      layer_id_errors_def split: if_splits)

lemma with_validators_Inr:
  assumes "with_validators e self st k = Inr x"
  obtains rq' where "marshmallow_validator e (request self) st = Inr rq'"
    and "k (self\<lparr>request := rq'\<rparr>) = Inr x"
  using assms by (auto simp add: with_validators_def split: sum.splits)

lemma load_instance_name: "name (snd (load_instance e b st)) = body_name b"
  by (simp add: load_instance_def split: prod.splits)


lemma add_and_flush_stored:
  assumes "add_and_flush e b rm st = Inr (k, st')"
  shows "map_of st' k = Some rm"
proof (cases b)
  case (Persistent k')
  then show ?thesis using assms by (auto simp add: update_conv')
next
  case (Pending k')
  then show ?thesis
    using assms by (cases k') (auto simp add: map_add_def split: if_splits)
qed

lemma collection_post_Inr:
  assumes "collection_post e self st = Inr (resp, st')"
  obtains k where
    "add_and_flush e (fst (validated (request self)))
       ((snd (validated (request self)))
          \<lparr>created_by := authenticated_userid (request self),
           updated_by := authenticated_userid (request self)\<rparr>) st = Inr (k, st')"
    and "resp = (201, Dump (Some k) ((snd (validated (request self)))
          \<lparr>created_by := authenticated_userid (request self),
           updated_by := authenticated_userid (request self)\<rparr>))"
  using assms
  by (auto simp add: collection_post_def Let_def split: prod.splits sum.splits)

lemma put_Inr:
  assumes "put e self st = Inr (resp, st')"
  shows "resp = (200, Dump (binding_id (fst (validated (request self))))
           ((snd (validated (request self)))
              \<lparr>updated_by := authenticated_userid (request self), updated_at := now e\<rparr>))"
    and "st' = flush_changes (fst (validated (request self)))
           ((snd (validated (request self)))
              \<lparr>updated_by := authenticated_userid (request self), updated_at := now e\<rparr>) st"
  using assms
  by (auto simp add: put_def Let_def split: prod.splits sum.splits)

section \<open>Validation of the layer id\<close>

lemma layer_error_listed:
  assumes "\<not> is_user_admin_on_layer e rq (body_layer_id (json_body rq))"
  shows "\<exists>errors. marshmallow_validator e rq st = Inl (HTTPBadRequest errors)
     \<and> (''body'', ''layer_id'',
          [''You're not admin on layer '' @ body_layer_id (json_body rq) @ ''.'']) \<in> set errors"
  using assms
  by (simp add: marshmallow_validator_def ReportModelSchema_load_def layer_id_errors_def Let_def)

text \<open>
  C3, as amended. A create or an update request that passes the permission check of its
  view and whose body carries a layer id the caller does not administer fails at schema
  validation: status 400, with a field-level error that names \<^verbatim>\<open>layer_id\<close>. The
  permission check comes first: whatever the body, a request that the ACL does not permit
  is answered 403, and one for which the computation of the ACL raises not-found is
  answered 404. In each of the three cases no record is created or modified.
\<close>

theorem layer_not_administered_is_bad_request:
  assumes "(r, v) \<in> set [(Route_collection, POST), (Route_item s, PUT)]"
    and "dunder_init e (req\<lparr>matchdict_id := matchdict r\<rparr>) = Inr self"
    and "permission r v = Some p"
  shows "(dunder_acl e self st = Inr acl \<and> permits acl (effective_principals req) p
          \<and> \<not> is_user_admin_on_layer e (req\<lparr>matchdict_id := matchdict r\<rparr>)
                (body_layer_id (json_body req)) \<longrightarrow>
            (\<exists>errors. handle e req r v st = (Inl (HTTPBadRequest errors), st)
               \<and> (''body'', ''layer_id'',
                    [''You're not admin on layer '' @ body_layer_id (json_body req) @ ''.''])
                   \<in> set errors
               \<and> status_code (fst (handle e req r v st)) = 400))
     \<and> (dunder_acl e self st = Inr acl \<and> \<not> permits acl (effective_principals req) p \<longrightarrow>
            handle e req r v st = (Inl HTTPForbidden, st)
            \<and> status_code (fst (handle e req r v st)) = 403)
     \<and> (dunder_acl e self st = Inl x \<longrightarrow>
            handle e req r v st = (Inl HTTPNotFound, st)
            \<and> status_code (fst (handle e req r v st)) = 404)"
proof (intro conjI impI)
  let ?rq = "req\<lparr>matchdict_id := matchdict r\<rparr>"
  have rq: "request self = ?rq"
    using assms(2) by (rule init_request)
  {
    assume h: "dunder_acl e self st = Inr acl \<and> permits acl (effective_principals req) p
          \<and> \<not> is_user_admin_on_layer e ?rq (body_layer_id (json_body req))"
    from layer_error_listed [of e ?rq st] h
    obtain errors where
      val: "marshmallow_validator e ?rq st = Inl (HTTPBadRequest errors)"
      and l: "(''body'', ''layer_id'',
            [''You're not admin on layer '' @ body_layer_id (json_body req) @ ''.''])
           \<in> set errors"
      by auto
    have "call_view e self r v st = Inl (HTTPBadRequest errors)"
      using assms(1) val rq by (auto simp add: with_validators_def)
    then have "handle e req r v st = (Inl (HTTPBadRequest errors), st)"
      using assms(2,3) h rq by (simp add: handle_def dispatch_def)
    then show "\<exists>errors. handle e req r v st = (Inl (HTTPBadRequest errors), st)
               \<and> (''body'', ''layer_id'',
                    [''You're not admin on layer '' @ body_layer_id (json_body req) @ ''.''])
                   \<in> set errors
               \<and> status_code (fst (handle e req r v st)) = 400"
      using l by auto
  }
  {
    assume h: "dunder_acl e self st = Inr acl \<and> \<not> permits acl (effective_principals req) p"
    then have f: "handle e req r v st = (Inl HTTPForbidden, st)"
      using assms(2,3) rq by (simp add: handle_def dispatch_def)
    then show "handle e req r v st = (Inl HTTPForbidden, st)" .
    from f show "status_code (fst (handle e req r v st)) = 403" by simp
  }
  {
    assume h: "dunder_acl e self st = Inl x"
    then have "x = HTTPNotFound" by (rule acl_raises_not_found)
    then have f: "handle e req r v st = (Inl HTTPNotFound, st)"
      using assms(2,3) h by (simp add: handle_def dispatch_def)
    then show "handle e req r v st = (Inl HTTPNotFound, st)" .
    from f show "status_code (fst (handle e req r v st)) = 404" by simp
  }
qed

theorem layer_not_administered_is_bad_request_witness:
  "\<not> is_user_admin_on_layer test_env
          ((reports_admin (put_payload ''updated'' ''DENIED_LAYER''))
             \<lparr>matchdict_id := matchdict (Route_item ''1'')\<rparr>)
          (body_layer_id (json_body (reports_admin (put_payload ''updated'' ''DENIED_LAYER''))))
   \<and> permission (Route_item ''1'') PUT = Some ''edit''
   \<and> dunder_acl test_env
        \<lparr>request = (reports_admin (put_payload ''updated'' ''DENIED_LAYER''))
                          \<lparr>matchdict_id := Some ''1''\<rparr>, report_models_id = Some 1\<rparr> test_data
       = Inr (static_acl @ [dynamic_ace ((reports_admin (put_payload ''updated'' ''DENIED_LAYER''))
                          \<lparr>matchdict_id := Some ''1''\<rparr>)])
   \<and> permits (static_acl @ [dynamic_ace ((reports_admin (put_payload ''updated'' ''DENIED_LAYER''))
                          \<lparr>matchdict_id := Some ''1''\<rparr>)])
        (effective_principals (reports_admin (put_payload ''updated'' ''DENIED_LAYER''))) ''edit''
   \<and> handle test_env (reports_admin (put_payload ''updated'' ''DENIED_LAYER''))
        (Route_item ''1'') PUT test_data
       = (Inl (HTTPBadRequest
                [(''body'', ''layer_id'', [''You're not admin on layer DENIED_LAYER.''])]),
          test_data)
   \<and> dunder_acl test_env
        \<lparr>request = (reports_admin (put_payload ''updated'' ''DENIED_LAYER''))
                          \<lparr>matchdict_id := Some ''2''\<rparr>, report_models_id = Some 2\<rparr> test_data
       = Inr static_acl
   \<and> \<not> permits static_acl
        (effective_principals (reports_admin (put_payload ''updated'' ''DENIED_LAYER''))) ''edit''
   \<and> handle test_env (reports_admin (put_payload ''updated'' ''DENIED_LAYER''))
        (Route_item ''2'') PUT test_data = (Inl HTTPForbidden, test_data)
   \<and> dunder_acl test_env
        \<lparr>request = (reports_admin (put_payload ''updated'' ''DENIED_LAYER''))
                          \<lparr>matchdict_id := Some ''3''\<rparr>, report_models_id = Some 3\<rparr> test_data
       = Inl HTTPNotFound
   \<and> handle test_env (reports_admin (put_payload ''updated'' ''DENIED_LAYER''))
        (Route_item ''3'') PUT test_data = (Inl HTTPNotFound, test_data)"
proof -
  let ?req = "reports_admin (put_payload ''updated'' ''DENIED_LAYER'')"
  let ?self = "\<lambda>s u. \<lparr>request = ?req\<lparr>matchdict_id := Some s\<rparr>, report_models_id = Some u\<rparr>"
  have m: "(Route_item i, PUT) \<in> set [(Route_collection, POST), (Route_item i, PUT)]" for i
    by simp
  have p: "permission (Route_item i) PUT = Some ''edit''" for i
    by simp
  have i1: "dunder_init test_env (?req\<lparr>matchdict_id := matchdict (Route_item ''1'')\<rparr>)
      = Inr (?self ''1'' 1)"
    and i2: "dunder_init test_env (?req\<lparr>matchdict_id := matchdict (Route_item ''2'')\<rparr>)
      = Inr (?self ''2'' 2)"
    and i3: "dunder_init test_env (?req\<lparr>matchdict_id := matchdict (Route_item ''3'')\<rparr>)
      = Inr (?self ''3'' 3)"
    by (simp_all add: dunder_init_def test_env_def test_UUID_def)
  note t1 = layer_not_administered_is_bad_request
    [OF m i1 p, of test_data "static_acl @ [dynamic_ace (?req\<lparr>matchdict_id := Some ''1''\<rparr>)]"]
  note t2 = layer_not_administered_is_bad_request [OF m i2 p, of test_data static_acl]
  note t3 = layer_not_administered_is_bad_request [OF m i3 p, of test_data _ HTTPNotFound]
  show ?thesis
    using t1 t2 t3
    by (simp add: handle_def dispatch_def dunder_init_def dunder_acl_def get_object_def
        static_acl_def dynamic_ace_def schema_defs fixture_defs)
qed

text \<open>
  C3 as stated fails: an update of a record on a layer the caller does not administer, and
  a create by a caller without a role, are answered 403 although the body carries a layer
  id the caller does not administer.
\<close>

theorem layer_not_administered_counterexample:
  "\<not> is_user_admin_on_layer test_env (reports_admin (put_payload ''updated'' ''DENIED_LAYER''))
        (body_layer_id (json_body (reports_admin (put_payload ''updated'' ''DENIED_LAYER''))))
   \<and> handle test_env (reports_admin (put_payload ''updated'' ''DENIED_LAYER''))
        (Route_item ''2'') PUT test_data = (Inl HTTPForbidden, test_data)
   \<and> status_code (Inl HTTPForbidden) = 403
   \<and> \<not> is_user_admin_on_layer test_env (no_roles (post_payload ''new'' ''DENIED_LAYER''))
        (body_layer_id (json_body (no_roles (post_payload ''new'' ''DENIED_LAYER''))))
   \<and> handle test_env (no_roles (post_payload ''new'' ''DENIED_LAYER''))
        Route_collection POST test_data = (Inl HTTPForbidden, test_data)"
  by (simp add: fixture_defs handle_def dispatch_def dunder_init_def dunder_acl_def
      get_object_def static_acl_def)

section \<open>Uniqueness of names\<close>

lemma update_image_subset:
  "f ` set (AList.update u rm st) \<subseteq> insert (f (u, rm)) (f ` set st)"
  by (induction st) auto

lemma filter_other_keys:
  assumes "u \<notin> fst ` set st"
  shows "filter (\<lambda>(k, rm). k \<noteq> u) st = st"
  using assms by (induction st) auto

lemma distinct_names_update:
  assumes "distinct (map fst st)" and "distinct (map f st)"
    and "f (u, rm) \<notin> f ` set (filter (\<lambda>(k, rm). k \<noteq> u) st)"
  shows "distinct (map f (AList.update u rm st))"
  using assms
proof (induction st)
  case Nil
  then show ?case by simp
next
  case (Cons a st)
  obtain k r where a: "a = (k, r)" by (cases a)
  show ?case
  proof (cases "k = u")
    case True
    have "u \<notin> fst ` set st"
      using Cons.prems(1) a True by simp
    then have "filter (\<lambda>(k, rm). k \<noteq> u) st = st"
      by (rule filter_other_keys)
    then have "f (u, rm) \<notin> f ` set st"
      using Cons.prems(3) a True by simp
    moreover have "distinct (map f st)"
      using Cons.prems(2) by simp
    ultimately show ?thesis
      using a True by simp
  next
    case False
    have d: "distinct (map fst st)" "distinct (map f st)"
      using Cons.prems(1,2) by simp_all
    have n: "f (u, rm) \<notin> f ` set (filter (\<lambda>(k, rm). k \<noteq> u) st)"
      and ne: "f (k, r) \<noteq> f (u, rm)"
      using Cons.prems(3) a False by auto
    have ih: "distinct (map f (AList.update u rm st))"
      using d n by (rule Cons.IH)
    have "f (k, r) \<notin> f ` set st"
      using Cons.prems(2) a by simp
    then have "f (k, r) \<notin> f ` set (AList.update u rm st)"
      using ne update_image_subset [of f u rm st] by blast
    then show ?thesis
      using ih a False by simp
  qed
qed

lemma name_errors_Nil:
  "name_errors st n = [] \<longleftrightarrow> n \<notin> (\<lambda>(k, rm). name rm) ` set st"
  by (simp add: name_errors_def)

lemma names_unique_append:
  assumes "names_unique st" and "map_of st k = None"
    and "name rm \<notin> (\<lambda>(k, rm). name rm) ` set st"
  shows "names_unique (st @ [(k, rm)])"
  using assms by (simp add: names_unique_def map_of_eq_None_iff)

lemma names_unique_delete:
  assumes "names_unique st"
  shows "names_unique (AList.delete u st)"
  using assms
  by (simp add: names_unique_def AList.delete_eq distinct_map_filter)

lemma names_unique_update:
  assumes "names_unique st"
    and "name rm \<notin> (\<lambda>(k, rm). name rm) ` set st"
  shows "names_unique (AList.update u rm st)"
proof -
  have "name rm \<notin> (\<lambda>(k, rm). name rm) ` set (filter (\<lambda>(k, rm). k \<noteq> u) st)"
    using assms(2) by auto
  then have "distinct (map (\<lambda>(k, rm). name rm) (AList.update u rm st))"
    using assms(1) by (intro distinct_names_update) (simp_all add: names_unique_def)
  then show ?thesis
    using assms(1) by (simp add: names_unique_def distinct_update)
qed

lemma add_and_flush_names_unique:
  assumes "names_unique st" and "name rm \<notin> (\<lambda>(k, rm). name rm) ` set st"
    and "add_and_flush e b rm st = Inr (k, st')"
  shows "names_unique st'"
proof (cases b)
  case (Persistent k')
  then show ?thesis
    using assms by (auto intro: names_unique_update)
next
  case (Pending k')
  then show ?thesis
    using assms by (cases k') (auto split: if_splits intro: names_unique_append)
qed

lemma flush_changes_names_unique:
  assumes "names_unique st" and "name rm \<notin> (\<lambda>(k, rm). name rm) ` set st"
  shows "names_unique (flush_changes b rm st)"
  using assms by (cases b) (auto intro: names_unique_update)

lemma validated_name_is_new:
  assumes "marshmallow_validator e rq st = Inr rq'"
  shows "name (snd (validated rq')) = body_name (json_body rq)"
    and "name (snd (validated rq')) \<notin> (\<lambda>(k, rm). name rm) ` set st"
  using validator_Inr(1,2) [OF assms]
  by (simp_all add: load_instance_name name_errors_Nil)

lemma call_view_names_unique:
  assumes "names_unique st" and "call_view e self r v st = Inr (resp, st')"
  shows "names_unique st'"
proof (cases r)
  case Route_collection
  show ?thesis
  proof (cases v)
    case GET
    then show ?thesis
      using assms Route_collection by (simp add: collection_get_def)
  next
    case POST
    then have "with_validators e self st (\<lambda>self. collection_post e self st) = Inr (resp, st')"
      using assms(2) Route_collection by simp
    then obtain rq' where
      val: "marshmallow_validator e (request self) st = Inr rq'"
      and cp: "collection_post e (self\<lparr>request := rq'\<rparr>) st = Inr (resp, st')"
      by (auto elim: with_validators_Inr)
    let ?rm = "(snd (validated rq'))\<lparr>created_by := authenticated_userid rq',
                                       updated_by := authenticated_userid rq'\<rparr>"
    from cp obtain k where
      af: "add_and_flush e (fst (validated rq')) ?rm st = Inr (k, st')"
      by (auto elim: collection_post_Inr)
    have n: "name ?rm \<notin> (\<lambda>(k, rm). name rm) ` set st"
      using validated_name_is_new(2) [OF val] by simp
    show ?thesis
      by (rule add_and_flush_names_unique [OF assms(1) n af])
  next
    case PUT
    then show ?thesis using assms(2) Route_collection by simp
  next
    case DELETE
    then show ?thesis using assms(2) Route_collection by simp
  qed
next
  case (Route_item s)
  show ?thesis
  proof (cases v)
    case GET
    then show ?thesis
      using assms Route_item by (auto simp add: get_def split: sum.splits)
  next
    case POST
    then show ?thesis using assms(2) Route_item by simp
  next
    case PUT
    then have "with_validators e self st (\<lambda>self. put e self st) = Inr (resp, st')"
      using assms(2) Route_item by simp
    then obtain rq' where
      val: "marshmallow_validator e (request self) st = Inr rq'"
      and p: "put e (self\<lparr>request := rq'\<rparr>) st = Inr (resp, st')"
      by (auto elim: with_validators_Inr)
    let ?rm = "(snd (validated rq'))\<lparr>updated_by := authenticated_userid rq',
                                       updated_at := now e\<rparr>"
    have n: "name ?rm \<notin> (\<lambda>(k, rm). name rm) ` set st"
      using validated_name_is_new(2) [OF val] by simp
    have "st' = flush_changes (fst (validated rq')) ?rm st"
      using put_Inr(2) [OF p] by simp
    then show ?thesis
      using flush_changes_names_unique [OF assms(1) n] by simp
  next
    case DELETE
    then show ?thesis
      using assms Route_item
      by (auto simp add: delete_def split: sum.splits intro: names_unique_delete)
  qed
next
  case (Route_tjs_view s)
  show ?thesis
    using assms Route_tjs_view
    by (cases v) (auto simp add: post_tjs_view_def split: sum.splits)
qed

lemma handle_names_unique:
  assumes "names_unique st"
  shows "names_unique (snd (handle e req r v st))"
proof (cases "dispatch e req r v st")
  case (Inl x)
  then show ?thesis using assms by (simp add: handle_def)
next
  case (Inr a)
  obtain resp st' where a: "a = (resp, st')" by (cases a)
  from Inr a obtain self where "call_view e self r v st = Inr (resp, st')"
    by (auto elim: dispatch_Inr)
  then have "names_unique st'"
    using assms call_view_names_unique by blast
  then show ?thesis using Inr a by (simp add: handle_def)
qed

lemma name_error_listed:
  assumes "body_name (json_body rq) \<in> (\<lambda>(k, rm). name rm) ` set st"
  shows "\<exists>errors. marshmallow_validator e rq st = Inl (HTTPBadRequest errors)
     \<and> (''body'', ''name'',
          [''Report model named '' @ body_name (json_body rq) @ '' already exists.''])
         \<in> set errors"
  using assms
  by (simp add: marshmallow_validator_def ReportModelSchema_load_def name_errors_def Let_def)

lemma collection_post_stores_name:
  assumes "handle e req Route_collection POST st = (Inr resp, st')"
  shows "body_name (json_body req) \<in> (\<lambda>(k, rm). name rm) ` set st'"
proof -
  from handle_Inr [OF assms] obtain self where
    i: "dunder_init e (req\<lparr>matchdict_id := matchdict Route_collection\<rparr>) = Inr self"
    and "with_validators e self st (\<lambda>self. collection_post e self st) = Inr (resp, st')"
    by (auto elim: dispatch_Inr)
  then obtain rq' where
    val: "marshmallow_validator e (request self) st = Inr rq'"
    and cp: "collection_post e (self\<lparr>request := rq'\<rparr>) st = Inr (resp, st')"
    by (auto elim: with_validators_Inr)
  let ?rm = "(snd (validated rq'))\<lparr>created_by := authenticated_userid rq',
                                     updated_by := authenticated_userid rq'\<rparr>"
  from cp obtain k where "add_and_flush e (fst (validated rq')) ?rm st = Inr (k, st')"
    by (auto elim: collection_post_Inr)
  then have "map_of st' k = Some ?rm"
    by (rule add_and_flush_stored)
  then have "(k, ?rm) \<in> set st'"
    by (rule map_of_SomeD)
  then have "name ?rm \<in> (\<lambda>(k, rm). name rm) ` set st'"
    by force
  moreover have "name ?rm = body_name (json_body req)"
    using validated_name_is_new(1) [OF val] init_request [OF i] by simp
  ultimately show ?thesis by simp
qed

text \<open>
  C4, as amended. When a create request succeeds, a following create request that submits
  the same name fails and creates no record: from a caller permitted to add (a reports
  administrator or a superuser) with status 400 and a field-level error on \<^verbatim>\<open>name\<close>,
  from any other caller with status 403. Every request leaves the names (and the primary
  keys) of the table unique.
\<close>

theorem duplicate_name_is_bad_request:
  assumes "handle e1 req1 Route_collection POST st = (Inr resp, st1)"
    and "body_name (json_body req2) = body_name (json_body req1)"
  shows "(''ROLE_REPORTS_ADMIN'' \<in> set (effective_principals req2)
          \<or> ''ROLE_SUPERUSER'' \<in> set (effective_principals req2) \<longrightarrow>
            (\<exists>errors. handle e2 req2 Route_collection POST st1
                         = (Inl (HTTPBadRequest errors), st1)
               \<and> (''body'', ''name'',
                    [''Report model named '' @ body_name (json_body req2)
                       @ '' already exists.''])
                   \<in> set errors
               \<and> status_code (fst (handle e2 req2 Route_collection POST st1)) = 400))
     \<and> (''ROLE_REPORTS_ADMIN'' \<notin> set (effective_principals req2)
          \<and> ''ROLE_SUPERUSER'' \<notin> set (effective_principals req2) \<longrightarrow>
            handle e2 req2 Route_collection POST st1 = (Inl HTTPForbidden, st1)
            \<and> status_code (fst (handle e2 req2 Route_collection POST st1)) = 403)
     \<and> (names_unique st0 \<longrightarrow> names_unique (snd (handle e0 req0 r0 v0 st0)))"
proof (intro conjI impI)
  let ?rq = "req2\<lparr>matchdict_id := None\<rparr>"
  {
    assume role: "''ROLE_REPORTS_ADMIN'' \<in> set (effective_principals req2)
          \<or> ''ROLE_SUPERUSER'' \<in> set (effective_principals req2)"
    have "body_name (json_body ?rq) \<in> (\<lambda>(k, rm). name rm) ` set st1"
      using collection_post_stores_name [OF assms(1)] assms(2) by simp
    from name_error_listed [OF this, of e2] obtain errors where
      val: "marshmallow_validator e2 ?rq st1 = Inl (HTTPBadRequest errors)"
      and l: "(''body'', ''name'',
            [''Report model named '' @ body_name (json_body req2) @ '' already exists.''])
           \<in> set errors"
      by auto
    have "permits static_acl (effective_principals req2) ''add''"
      using role by (auto simp add: permits_static_acl)
    then have "dispatch e2 req2 Route_collection POST st1 = Inl (HTTPBadRequest errors)"
      using val
      by (simp add: dispatch_def dunder_init_def acl_collection with_validators_def)
    then have "handle e2 req2 Route_collection POST st1 = (Inl (HTTPBadRequest errors), st1)"
      by (simp add: handle_def)
    then show "\<exists>errors. handle e2 req2 Route_collection POST st1
                         = (Inl (HTTPBadRequest errors), st1)
               \<and> (''body'', ''name'',
                    [''Report model named '' @ body_name (json_body req2)
                       @ '' already exists.''])
                   \<in> set errors
               \<and> status_code (fst (handle e2 req2 Route_collection POST st1)) = 400"
      using l by auto
  }
  {
    assume "''ROLE_REPORTS_ADMIN'' \<notin> set (effective_principals req2)
          \<and> ''ROLE_SUPERUSER'' \<notin> set (effective_principals req2)"
    then have "\<not> permits static_acl (effective_principals req2) ''add''"
      by (simp add: permits_static_acl)
    then have f: "handle e2 req2 Route_collection POST st1 = (Inl HTTPForbidden, st1)"
      by (simp add: handle_def dispatch_def dunder_init_def acl_collection)
    then show "handle e2 req2 Route_collection POST st1 = (Inl HTTPForbidden, st1)" .
    from f show "status_code (fst (handle e2 req2 Route_collection POST st1)) = 403"
      by simp
  }
  {
    assume "names_unique st0"
    then show "names_unique (snd (handle e0 req0 r0 v0 st0))"
      by (rule handle_names_unique)
  }
qed

theorem duplicate_name_is_bad_request_witness:
  "handle test_env (reports_admin (post_payload ''new'' ''ALLOWED_LAYER'')) Route_collection POST
       test_data
     = (Inr (201, Dump (Some 3) new_row), test_data @ [(3, new_row)])
   \<and> ''ROLE_REPORTS_ADMIN''
        \<in> set (effective_principals (reports_admin (post_payload ''new'' ''ALLOWED_LAYER'')))
   \<and> handle test_env (reports_admin (post_payload ''new'' ''ALLOWED_LAYER'')) Route_collection POST
       (test_data @ [(3, new_row)])
     = (Inl (HTTPBadRequest
              [(''body'', ''name'', [''Report model named new already exists.''])]),
        test_data @ [(3, new_row)])
   \<and> ''ROLE_REPORTS_ADMIN''
        \<notin> set (effective_principals (no_roles (post_payload ''new'' ''ALLOWED_LAYER'')))
   \<and> ''ROLE_SUPERUSER''
        \<notin> set (effective_principals (no_roles (post_payload ''new'' ''ALLOWED_LAYER'')))
   \<and> handle test_env (no_roles (post_payload ''new'' ''ALLOWED_LAYER'')) Route_collection POST
       (test_data @ [(3, new_row)])
     = (Inl HTTPForbidden, test_data @ [(3, new_row)])
   \<and> names_unique test_data
   \<and> names_unique
        (snd (handle test_env (reports_admin (post_payload ''new'' ''ALLOWED_LAYER''))
                Route_collection POST test_data))"
proof -
  let ?req = "reports_admin (post_payload ''new'' ''ALLOWED_LAYER'')"
  let ?other = "no_roles (post_payload ''new'' ''ALLOWED_LAYER'')"
  have first: "handle test_env ?req Route_collection POST test_data
     = (Inr (201, Dump (Some 3) new_row), test_data @ [(3, new_row)])"
    by (simp add: handle_def dispatch_def dunder_init_def dunder_acl_def static_acl_def
        schema_defs view_defs fixture_defs new_row_def Let_def)
  have same: "body_name (json_body ?other) = body_name (json_body ?req)"
    by (simp add: fixture_defs)
  have u: "names_unique test_data"
    by (simp add: names_unique_def fixture_defs)
  note permitted = duplicate_name_is_bad_request
    [OF first refl, of test_env test_data test_env ?req Route_collection POST]
  note refused = duplicate_name_is_bad_request
    [OF first same, of test_env test_data test_env ?req Route_collection POST]
  show ?thesis
    using first u permitted refused
    by (simp add: handle_def dispatch_def dunder_init_def dunder_acl_def static_acl_def
        schema_defs view_defs fixture_defs new_row_def Let_def)
qed

text \<open>
  C4 as stated fails: after a successful create, a create of the same name by a caller
  without a role is answered 403, not 400.
\<close>

theorem duplicate_name_counterexample:
  "handle test_env (reports_admin (post_payload ''new'' ''ALLOWED_LAYER'')) Route_collection POST
       test_data
     = (Inr (201, Dump (Some 3) new_row), test_data @ [(3, new_row)])
   \<and> body_name (json_body (no_roles (post_payload ''new'' ''ALLOWED_LAYER'')))
       = body_name (json_body (reports_admin (post_payload ''new'' ''ALLOWED_LAYER'')))
   \<and> handle test_env (no_roles (post_payload ''new'' ''ALLOWED_LAYER'')) Route_collection POST
       (test_data @ [(3, new_row)])
     = (Inl HTTPForbidden, test_data @ [(3, new_row)])
   \<and> status_code (Inl HTTPForbidden) = 403"
  by (simp add: handle_def dispatch_def dunder_init_def dunder_acl_def static_acl_def
      schema_defs view_defs fixture_defs new_row_def Let_def)

section \<open>Audit fields\<close>



section \<open>Listing the layers\<close>

lemma rules_loop_eq:
  "rules_loop parse match req l rules acc =
     acc @ [layer_name l. (k, v) \<leftarrow> rules,
              match (parse k v) (layer_name l) (effective_principals req)]"
  by (induction rules arbitrary: acc) auto

lemma layers_loop_eq:
  "layers_loop parse match req layers rules acc =
     acc @ [layer_name l. l \<leftarrow> layers, (k, v) \<leftarrow> rules,
              match (parse k v) (layer_name l) (effective_principals req)]"
  by (induction layers arbitrary: acc) (simp_all add: rules_loop_eq)

text \<open>
  C5. When the layer list is not answered with an error and the ACL document is fetched,
  \<^verbatim>\<open>GET /layers\<close> returns the name of a layer once for each rule that matches it with
  the caller's effective principals: the names returned are exactly the names of the
  layers that some rule authorizes.
\<close>

theorem get_layers_lists_authorized_layers:
  assumes "\<not> (400 \<le> layers_status lr \<and> layers_status lr < 600)"
    and "200 \<le> acl_status ar \<and> acl_status ar < 300"
  shows "\<exists>names. get_layers parse match req lr ar = Inr names
     \<and> names = [layer_name l. l \<leftarrow> layers_json lr, (k, v) \<leftarrow> acl_json ar,
                  match (parse k v) (layer_name l) (effective_principals req)]
     \<and> set names =
         {layer_name l | l. l \<in> set (layers_json lr)
            \<and> (\<exists>(k, v) \<in> set (acl_json ar).
                  match (parse k v) (layer_name l) (effective_principals req))}"
proof -
  have "get_layers parse match req lr ar =
      Inr [layer_name l. l \<leftarrow> layers_json lr, (k, v) \<leftarrow> acl_json ar,
             match (parse k v) (layer_name l) (effective_principals req)]"
    using assms
    by (simp add: get_layers_def raise_for_status_def get_geoserver_layers_acl_def
        layers_loop_eq)
  moreover have "set [layer_name l. l \<leftarrow> layers_json lr, (k, v) \<leftarrow> acl_json ar,
             match (parse k v) (layer_name l) (effective_principals req)] =
         {layer_name l | l. l \<in> set (layers_json lr)
            \<and> (\<exists>(k, v) \<in> set (acl_json ar).
                  match (parse k v) (layer_name l) (effective_principals req))}"
    by auto
  ultimately show ?thesis by simp
qed

theorem get_layers_lists_authorized_layers_witness:
  "\<not> (400 \<le> layers_status sample_layers \<and> layers_status sample_layers < 600)
   \<and> 200 \<le> acl_status sample_acl \<and> acl_status sample_acl < 300
   \<and> get_layers sample_parse (Rule_match sample_syntax)
        (reports_admin (post_payload ''new'' ''ALLOWED_LAYER'')) sample_layers sample_acl
       = Inr [''roads'']"
  using get_layers_lists_authorized_layers
    [of sample_layers sample_acl sample_parse "Rule_match sample_syntax"
        "reports_admin (post_payload ''new'' ''ALLOWED_LAYER'')"]
  by (simp add: sample_layers_def sample_acl_def sample_parse_def sample_syntax_def
      Rule_match_def fixture_defs)

text \<open>
  C8, as amended. When the fetch of the layer list is answered 4xx or 5xx, or else the
  fetch of the ACL document is answered with a non-2xx status, \<^verbatim>\<open>GET /layers\<close> fails with
  the upstream error and returns no list.
\<close>

theorem get_layers_propagates_upstream_errors:
  "(400 \<le> layers_status lr \<and> layers_status lr < 600 \<longrightarrow>
      get_layers parse match req lr ar = Inl (HTTPError (layers_status lr)))
   \<and> (\<not> (400 \<le> layers_status lr \<and> layers_status lr < 600)
       \<and> \<not> (200 \<le> acl_status ar \<and> acl_status ar < 300) \<longrightarrow>
      get_layers parse match req lr ar = Inl (HTTPError (acl_status ar)))"
  by (simp add: get_layers_def raise_for_status_def get_geoserver_layers_acl_def)

theorem get_layers_propagates_upstream_errors_witness:
  "400 \<le> layers_status (sample_layers\<lparr>layers_status := 503\<rparr>)
   \<and> layers_status (sample_layers\<lparr>layers_status := 503\<rparr>) < 600
   \<and> get_layers sample_parse (Rule_match sample_syntax)
        (reports_admin (post_payload ''new'' ''ALLOWED_LAYER''))
        (sample_layers\<lparr>layers_status := 503\<rparr>) sample_acl = Inl (HTTPError 503)
   \<and> \<not> (200 \<le> acl_status (sample_acl\<lparr>acl_status := 404\<rparr>)
          \<and> acl_status (sample_acl\<lparr>acl_status := 404\<rparr>) < 300)
   \<and> get_layers sample_parse (Rule_match sample_syntax)
        (reports_admin (post_payload ''new'' ''ALLOWED_LAYER''))
        sample_layers (sample_acl\<lparr>acl_status := 404\<rparr>) = Inl (HTTPError 404)"
  using get_layers_propagates_upstream_errors
    [of "sample_layers\<lparr>layers_status := 503\<rparr>" sample_parse "Rule_match sample_syntax"
        "reports_admin (post_payload ''new'' ''ALLOWED_LAYER'')" sample_acl]
    get_layers_propagates_upstream_errors
    [of sample_layers sample_parse "Rule_match sample_syntax"
        "reports_admin (post_payload ''new'' ''ALLOWED_LAYER'')" "sample_acl\<lparr>acl_status := 404\<rparr>"]
  by (simp add: sample_layers_def sample_acl_def)

text \<open>
  C8 as stated fails: \<^verbatim>\<open>raise_for_status\<close> lets a 3xx answer to the fetch of the layer
  list pass, and the layers of its body are listed.
\<close>

theorem get_layers_redirect_counterexample:
  "\<not> (200 \<le> layers_status (sample_layers\<lparr>layers_status := 300\<rparr>)
        \<and> layers_status (sample_layers\<lparr>layers_status := 300\<rparr>) < 300)
   \<and> get_layers sample_parse (Rule_match sample_syntax)
        (reports_admin (post_payload ''new'' ''ALLOWED_LAYER''))
        (sample_layers\<lparr>layers_status := 300\<rparr>) sample_acl = Inr [''roads'']"
  by (simp add: get_layers_def raise_for_status_def get_geoserver_layers_acl_def
      sample_layers_def sample_acl_def sample_parse_def sample_syntax_def
      Rule_match_def fixture_defs)


section \<open>Matching a rule\<close>

lemma any_principal_iff:
  "any_principal everybody configured principals \<longleftrightarrow>
     (\<exists>p \<in> set configured. p = everybody \<or> p \<in> set principals)"
  by (induction configured) auto

text \<open>
  C2. \<^verbatim>\<open>Rule.match(layer_name, principals)\<close> is true if and only if the layer pattern of
  the rule matches the layer name, its mode grants access, and some configured principal
  of the rule is the principal for anyone or one of the caller's effective principals.
\<close>

theorem rule_match_iff:
  "Rule_match sx r l principals \<longleftrightarrow>
     layer_pattern_matches sx (rule_layer r) l
     \<and> mode_grants sx (rule_mode r)
     \<and> (\<exists>p \<in> set (rule_principals r). p = anyone sx \<or> p \<in> set principals)"
  by (simp add: Rule_match_def any_principal_iff)

theorem rule_match_iff_witness:
  "Rule_match sample_syntax (sample_parse ''r:roads'' ''ROLE_REPORTS_ADMIN'') ''roads''
      (effective_principals (reports_admin (post_payload ''new'' ''ALLOWED_LAYER'')))
   \<and> ''ROLE_REPORTS_ADMIN'' \<in> set (rule_principals (sample_parse ''r:roads'' ''ROLE_REPORTS_ADMIN''))
   \<and> ''ROLE_REPORTS_ADMIN''
        \<in> set (effective_principals (reports_admin (post_payload ''new'' ''ALLOWED_LAYER'')))
   \<and> \<not> Rule_match sample_syntax (sample_parse ''r:roads'' ''ROLE_REPORTS_ADMIN'') ''roads''
          (effective_principals (no_roles (post_payload ''new'' ''ALLOWED_LAYER'')))
   \<and> Rule_match sample_syntax (sample_parse ''r:*'' ''*'') ''rivers''
        (effective_principals (no_roles (post_payload ''new'' ''ALLOWED_LAYER'')))"
  using rule_match_iff
    [of sample_syntax "sample_parse ''r:roads'' ''ROLE_REPORTS_ADMIN''" "''roads''"
        "effective_principals (reports_admin (post_payload ''new'' ''ALLOWED_LAYER''))"]
    rule_match_iff
    [of sample_syntax "sample_parse ''r:roads'' ''ROLE_REPORTS_ADMIN''" "''roads''"
        "effective_principals (no_roles (post_payload ''new'' ''ALLOWED_LAYER''))"]
    rule_match_iff
    [of sample_syntax "sample_parse ''r:*'' ''*''" "''rivers''"
        "effective_principals (no_roles (post_payload ''new'' ''ALLOWED_LAYER''))"]
  by (simp add: sample_parse_def sample_syntax_def fixture_defs)

end
